theory Spec2Isabelle
  imports Main "HOL-Library.Word" "HOL-Library.Sublist"
begin

section \<open>Python strings\<close>

text \<open>
  A Python \<open>str\<close> is a sequence of Unicode code points, so it is modelled as a list of
  natural numbers. \<open>py\<close> turns an ASCII literal of the theory into such a string.
\<close>

type_synonym pystr = "nat list"

definition py :: "string \<Rightarrow> pystr" where
  "py cs = map of_char cs"

text \<open>
  \<open>str.isdigit\<close> on one character: true for the code points whose Unicode property
  Numeric\_Type is Digit or Decimal. The table lists these code points as closed ranges
  (Unicode 14, as shipped with CPython 3.11): the ASCII digits come first, followed by the
  superscript digits, the Arabic-Indic digits and the other scripts' digits.
\<close>

definition isdigit_ranges :: "(nat \<times> nat) list" where
  "isdigit_ranges =
    [(48, 57), (178, 179), (185, 185), (1632, 1641), (1776, 1785), (1984, 1993),
     (2406, 2415), (2534, 2543), (2662, 2671), (2790, 2799), (2918, 2927), (3046, 3055),
     (3174, 3183), (3302, 3311), (3430, 3439), (3558, 3567), (3664, 3673), (3792, 3801),
     (3872, 3881), (4160, 4169), (4240, 4249), (4969, 4977), (6112, 6121), (6160, 6169),
     (6470, 6479), (6608, 6618), (6784, 6793), (6800, 6809), (6992, 7001), (7088, 7097),
     (7232, 7241), (7248, 7257), (8304, 8304), (8308, 8313), (8320, 8329), (9312, 9320),
     (9332, 9340), (9352, 9360), (9450, 9450), (9461, 9469), (9471, 9471), (10102, 10110),
     (10112, 10120), (10122, 10130), (42528, 42537), (43216, 43225), (43264, 43273),
     (43472, 43481), (43504, 43513), (43600, 43609), (44016, 44025), (65296, 65305),
     (66720, 66729), (68160, 68163), (68912, 68921), (69216, 69224), (69714, 69722),
     (69734, 69743), (69872, 69881), (69942, 69951), (70096, 70105), (70384, 70393),
     (70736, 70745), (70864, 70873), (71248, 71257), (71360, 71369), (71472, 71481),
     (71904, 71913), (72016, 72025), (72784, 72793), (73040, 73049), (73120, 73129),
     (92768, 92777), (92864, 92873), (93008, 93017), (120782, 120831), (123200, 123209),
     (123632, 123641), (125264, 125273), (127232, 127242), (130032, 130041)]"

definition str_isdigit :: "nat \<Rightarrow> bool" where
  "str_isdigit c = list_ex (\<lambda>(lo, hi). lo \<le> c \<and> c \<le> hi) isdigit_ranges"

text \<open>The characters \<open>0\<close> to \<open>9\<close> of ASCII.\<close>

definition ascii_digit :: "nat \<Rightarrow> bool" where
  "ascii_digit c = (48 \<le> c \<and> c \<le> 57)"

section \<open>The identifier normalizer\<close>

text \<open>
  \<^verbatim>\<open>def limpar_cnpj(cnpj): return ''.join(filter(str.isdigit, cnpj))\<close>
\<close>

definition limpar_cnpj :: "pystr \<Rightarrow> pystr" where
  "limpar_cnpj cnpj = filter str_isdigit cnpj"

section \<open>JSON values and the Python operations applied to them\<close>

text \<open>
  What \<open>json.loads\<close> returns: \<open>None\<close>, a bool, an int, a float (its IEEE-754 bits),
  a str, a list or a dict. A dict is an association list read with \<open>map_of\<close>; the empty
  dict is the empty list.
\<close>

datatype json =
    JNull
  | JBool bool
  | JInt int
  | JFloat "64 word"
  | JStr pystr
  | JArr "json list"
  | JObj "(pystr \<times> json) list"

datatype error =
    UnicodeEncodeError
  | ConnectionError
  | ReadError
  | ParseError
  | TypeError
  | AttributeError
  | KeyError
  | IndexError
  | FileError

text \<open>Truth value of an object, as \<open>if x:\<close> tests it (\<open>0.0\<close> and \<open>-0.0\<close> are false).\<close>

fun truthy :: "json \<Rightarrow> bool" where
  "truthy JNull = False"
| "truthy (JBool b) = b"
| "truthy (JInt i) = (i \<noteq> 0)"
| "truthy (JFloat w) = (w \<noteq> 0 \<and> w \<noteq> 0x8000000000000000)"
| "truthy (JStr s) = (s \<noteq> [])"
| "truthy (JArr xs) = (xs \<noteq> [])"
| "truthy (JObj d) = (d \<noteq> [])"

text \<open>\<open>k in s\<close> for two strings: \<open>k\<close> occurs in \<open>s\<close> as a substring.\<close>

fun startswith :: "pystr \<Rightarrow> pystr \<Rightarrow> bool" where
  "startswith s [] = True"
| "startswith [] (c # k) = False"
| "startswith (a # s) (c # k) = (a = c \<and> startswith s k)"

fun str_contains :: "pystr \<Rightarrow> pystr \<Rightarrow> bool" where
  "str_contains [] k = (k = [])"
| "str_contains (a # s) k = (startswith (a # s) k \<or> str_contains s k)"

text \<open>
  \<open>k in x\<close> for a string \<open>k\<close>: key membership in a dict, element membership in a list,
  substring test in a str; \<open>None\<close>, bools and numbers are not iterable.
\<close>

fun py_in :: "pystr \<Rightarrow> json \<Rightarrow> error + bool" where
  "py_in k (JObj d) = Inr (k \<in> set (map fst d))"
| "py_in k (JArr xs) = Inr (JStr k \<in> set xs)"
| "py_in k (JStr s) = Inr (str_contains s k)"
| "py_in k JNull = Inl TypeError"
| "py_in k (JBool b) = Inl TypeError"
| "py_in k (JInt i) = Inl TypeError"
| "py_in k (JFloat w) = Inl TypeError"

text \<open>
  \<open>x[k]\<close> for a string \<open>k\<close>: the value of a dict (KeyError when absent); a list or a
  str wants an integer index, the other values are not subscriptable.
\<close>

fun getitem_str :: "json \<Rightarrow> pystr \<Rightarrow> error + json" where
  "getitem_str (JObj d) k = (case map_of d k of None \<Rightarrow> Inl KeyError | Some v \<Rightarrow> Inr v)"
| "getitem_str (JArr xs) k = Inl TypeError"
| "getitem_str (JStr s) k = Inl TypeError"
| "getitem_str JNull k = Inl TypeError"
| "getitem_str (JBool b) k = Inl TypeError"
| "getitem_str (JInt i) k = Inl TypeError"
| "getitem_str (JFloat w) k = Inl TypeError"

text \<open>
  \<open>x[0]\<close>: the first element of a list or the first character of a str (IndexError when
  empty); a dict from JSON has string keys only, so the key \<open>0\<close> is missing.
\<close>

fun getitem0 :: "json \<Rightarrow> error + json" where
  "getitem0 (JArr []) = Inl IndexError"
| "getitem0 (JArr (x # xs)) = Inr x"
| "getitem0 (JStr []) = Inl IndexError"
| "getitem0 (JStr (c # s)) = Inr (JStr [c])"
| "getitem0 (JObj d) = Inl KeyError"
| "getitem0 JNull = Inl TypeError"
| "getitem0 (JBool b) = Inl TypeError"
| "getitem0 (JInt i) = Inl TypeError"
| "getitem0 (JFloat w) = Inl TypeError"

text \<open>\<open>d.get(k, default)\<close> on a dict.\<close>

definition dict_get :: "(pystr \<times> json) list \<Rightarrow> pystr \<Rightarrow> json \<Rightarrow> json" where
  "dict_get d k dflt = (case map_of d k of None \<Rightarrow> dflt | Some v \<Rightarrow> v)"

text \<open>\<open>x.get(k, default)\<close>: only a dict has the method.\<close>

fun py_get :: "json \<Rightarrow> pystr \<Rightarrow> json \<Rightarrow> error + json" where
  "py_get (JObj d) k dflt = Inr (dict_get d k dflt)"
| "py_get (JArr xs) k dflt = Inl AttributeError"
| "py_get (JStr s) k dflt = Inl AttributeError"
| "py_get JNull k dflt = Inl AttributeError"
| "py_get (JBool b) k dflt = Inl AttributeError"
| "py_get (JInt i) k dflt = Inl AttributeError"
| "py_get (JFloat w) k dflt = Inl AttributeError"

text \<open>\<open>d[k] = v\<close> on a dict: an existing key keeps its position.\<close>

fun dict_setitem :: "(pystr \<times> json) list \<Rightarrow> pystr \<Rightarrow> json \<Rightarrow> (pystr \<times> json) list" where
  "dict_setitem [] k v = [(k, v)]"
| "dict_setitem ((k', v') # d) k v =
     (if k' = k then (k, v) # d else (k', v') # dict_setitem d k v)"

section \<open>The registry client\<close>

text \<open>
  The registry is the environment. One round trip either fails in the transport or gives
  a response: its status and what reading the body gives. \<open>Parsed j\<close> is a body on
  which \<open>json.loads(dados.decode("utf-8"))\<close> returns \<open>j\<close>, \<open>Malformed\<close> one on
  which it raises, \<open>Unreadable\<close> one whose \<open>read()\<close> raises. The registry answers
  the \<open>n\<close>-th request of the run for a path; the same path may get different answers at
  different times.
\<close>

datatype body = Unreadable | Malformed | Parsed json

record response =
  status :: int
  body :: body

type_synonym registry = "nat \<Rightarrow> pystr \<Rightarrow> error + response"

text \<open>
  \<open>conexao.request("GET", url)\<close> followed by \<open>conexao.getresponse()\<close>: http.client
  encodes the request line as ASCII before anything is sent.
\<close>

definition request :: "registry \<Rightarrow> nat \<Rightarrow> pystr \<Rightarrow> error + response" where
  "request net n url =
     (if list_ex (\<lambda>c. 128 \<le> c) url then Inl UnicodeEncodeError else net n url)"

text \<open>
  What one call of the lookup gives: the value returned (\<open>None\<close> is \<open>Inr None\<close>) or the
  exception raised, and whether \<open>conexao.close()\<close> was called.
\<close>

record lookup =
  outcome :: "error + json option"
  closed :: bool

definition ERROR :: json where
  "ERROR = JStr (py ''ERROR'')"

definition obter_dados_empresa_por_cnpj :: "registry \<Rightarrow> nat \<Rightarrow> pystr \<Rightarrow> lookup" where
  "obter_dados_empresa_por_cnpj net n cnpj0 =
     (let cnpj = limpar_cnpj cnpj0 in
      case request net n (py ''/v1/cnpj/'' @ cnpj) of
        Inl e \<Rightarrow> \<lparr>outcome = Inl e, closed = False\<rparr>
      | Inr resposta \<Rightarrow>
          if status resposta \<noteq> 200 then \<lparr>outcome = Inr None, closed = True\<rparr>
          else
            (case body resposta of
               Unreadable \<Rightarrow> \<lparr>outcome = Inl ReadError, closed = False\<rparr>
             | Malformed \<Rightarrow> \<lparr>outcome = Inl ParseError, closed = True\<rparr>
             | Parsed empresa \<Rightarrow>
                 (case py_in (py ''status'') empresa of
                    Inl e \<Rightarrow> \<lparr>outcome = Inl e, closed = True\<rparr>
                  | Inr False \<Rightarrow> \<lparr>outcome = Inr (Some empresa), closed = True\<rparr>
                  | Inr True \<Rightarrow>
                      (case getitem_str empresa (py ''status'') of
                         Inl e \<Rightarrow> \<lparr>outcome = Inl e, closed = True\<rparr>
                       | Inr v \<Rightarrow>
                           if v = ERROR then \<lparr>outcome = Inr None, closed = True\<rparr>
                           else \<lparr>outcome = Inr (Some empresa), closed = True\<rparr>))))"

section \<open>The record formatter\<close>

definition campos_interesse :: "pystr list" where
  "campos_interesse =
     [py ''cnpj'', py ''nome'', py ''telefone'', py ''email'', py ''logradouro'',
      py ''bairro'', py ''municipio'', py ''uf'', py ''cep'', py ''atividade_principal'']"

text \<open>
  The formatted row is a dict with the ten keys in the order of \<open>campos_interesse\<close>.
  Every step that can raise is a branch: \<open>.get\<close> on a value that is no dict, \<open>[0]\<close>
  on a value that has no first element.
\<close>

definition formatar_dados :: "json \<Rightarrow> error + (pystr \<times> json) list" where
  "formatar_dados empresa =
     (case empresa of
        JObj d \<Rightarrow>
          (let dados_formatados = map (\<lambda>campo. (campo, dict_get d campo (JStr []))) campos_interesse
           in if py ''atividade_principal'' \<in> set (map fst d)
                 \<and> truthy (dict_get d (py ''atividade_principal'') JNull)
              then
                (case getitem0 (dict_get d (py ''atividade_principal'') JNull) of
                   Inl e \<Rightarrow> Inl e
                 | Inr a \<Rightarrow>
                     (case py_get a (py ''text'') (JStr []) of
                        Inl e \<Rightarrow> Inl e
                      | Inr t \<Rightarrow> Inr (dict_setitem dados_formatados (py ''atividade_principal'') t)))
              else Inr dados_formatados)
      | _ \<Rightarrow> Inl AttributeError)"

section \<open>The spreadsheet file\<close>

text \<open>
  The workbook as openpyxl holds it: titled sheets in order, titles unique. A worksheet is
  its dictionary of cells, keyed by (row, column), both counted from 1; the list is read
  with \<open>map_of\<close>, and assigning to a cell puts the new binding in front. A chart sheet
  has no cells. A file that cannot be opened (missing, locked, not a workbook) is
  \<open>None\<close>. A cell holds the value handed to the engine; how the engine renders it and
  the size limits of a sheet are outside the model.
\<close>

type_synonym cells = "((nat \<times> nat) \<times> json) list"

datatype sheet = Worksheet cells | Chartsheet

type_synonym workbook = "(pystr \<times> sheet) list"

type_synonym xlsx = "workbook option"

text \<open>
  \<open>Worksheet.max_row\<close>: the largest row index that holds a cell, and 1 for a sheet
  without cells.
\<close>

definition max_row :: "cells \<Rightarrow> nat" where
  "max_row cs = (if cs = [] then 1 else foldr max (map (\<lambda>((r, c), v). r) cs) 0)"

text \<open>\<open>worksheet.max_row\<close> on what \<open>book[name]\<close> returned: a chart sheet has no such attribute.\<close>

fun sheet_max_row :: "sheet \<Rightarrow> error + nat" where
  "sheet_max_row (Worksheet cs) = Inr (max_row cs)"
| "sheet_max_row Chartsheet = Inl AttributeError"

text \<open>\<open>writer.book[name]\<close>: the sheet of that title, KeyError when there is none.\<close>

definition book_getitem :: "workbook \<Rightarrow> pystr \<Rightarrow> error + sheet" where
  "book_getitem book name = (case map_of book name of None \<Rightarrow> Inl KeyError | Some sh \<Rightarrow> Inr sh)"

fun book_setsheet :: "workbook \<Rightarrow> pystr \<Rightarrow> sheet \<Rightarrow> workbook" where
  "book_setsheet [] name sh = []"
| "book_setsheet ((t, old) # book) name sh =
     (if t = name then (t, sh) # book else (t, old) # book_setsheet book name sh)"

section \<open>Data frames and \<open>to_excel\<close>\<close>

text \<open>
  A DataFrame: the column labels and the rows of values, every row as long as the labels.
  \<open>pd.DataFrame(resultados)\<close> on a list of dicts takes the keys in the order in which
  they are first seen as the columns and fills a missing entry with NaN (the dtype
  inference of a column is not modelled: a value stays as it is).
\<close>

record dataframe =
  columns :: "pystr list"
  rows :: "json list list"

definition NaN :: json where
  "NaN = JFloat 0x7FF8000000000000"

definition first_seen :: "pystr list \<Rightarrow> pystr list" where
  "first_seen ks = fold (\<lambda>k acc. if k \<in> set acc then acc else acc @ [k]) ks []"

definition DataFrame :: "(pystr \<times> json) list list \<Rightarrow> dataframe" where
  "DataFrame resultados =
     (let cols = first_seen (concat (map (map fst) resultados))
      in \<lparr>columns = cols, rows = map (\<lambda>d. map (\<lambda>c. dict_get d c NaN) cols) resultados\<rparr>)"

text \<open>
  The cells \<open>to_excel(index=False, header=h)\<close> hands to the engine, as (row, column,
  value) counted from 0: with a header the labels are row 0 and the data rows follow from
  row 1; without one the data rows start at row 0. (pandas emits the data by column; the
  cells are distinct, so the order does not show in the sheet.)
\<close>

fun row_cells :: "nat \<Rightarrow> nat \<Rightarrow> json list \<Rightarrow> (nat \<times> nat \<times> json) list" where
  "row_cells r c [] = []"
| "row_cells r c (v # vs) = (r, c, v) # row_cells r (Suc c) vs"

fun rows_cells :: "nat \<Rightarrow> json list list \<Rightarrow> (nat \<times> nat \<times> json) list" where
  "rows_cells r [] = []"
| "rows_cells r (vs # vss) = row_cells r 0 vs @ rows_cells (Suc r) vss"

definition frame_cells :: "dataframe \<Rightarrow> bool \<Rightarrow> (nat \<times> nat \<times> json) list" where
  "frame_cells df header =
     (if header then row_cells 0 0 (map JStr (columns df)) @ rows_cells 1 (rows df)
      else rows_cells 0 (rows df))"

text \<open>
  The engine's loop over the cells:
  \<^verbatim>\<open>wks.cell(row=startrow + cell.row + 1, column=startcol + cell.col + 1).value = cell.val\<close>
\<close>

definition write_cells :: "cells \<Rightarrow> nat \<Rightarrow> (nat \<times> nat \<times> json) list \<Rightarrow> cells" where
  "write_cells cs startrow fc = fold (\<lambda>(r, c, v) acc. ((startrow + r + 1, c + 1), v) # acc) fc cs"

text \<open>
  \<open>df.to_excel(writer, sheet_name=name, index=False, header=h, startrow=n)\<close> on a writer
  opened with \<open>mode='a', if_sheet_exists='overlay'\<close>: an existing sheet is written over,
  a missing one is created at the end of the book. Writing a cell of a chart sheet raises.
\<close>

definition to_excel :: "dataframe \<Rightarrow> workbook \<Rightarrow> pystr \<Rightarrow> bool \<Rightarrow> nat \<Rightarrow> error + workbook" where
  "to_excel df book name header startrow =
     (case map_of book name of
        None \<Rightarrow> Inr (book @ [(name, Worksheet (write_cells [] startrow (frame_cells df header)))])
      | Some (Worksheet cs) \<Rightarrow>
          Inr (book_setsheet book name (Worksheet (write_cells cs startrow (frame_cells df header))))
      | Some Chartsheet \<Rightarrow> if frame_cells df header = [] then Inr book else Inl AttributeError)"

section \<open>The spreadsheet appender\<close>

text \<open>
  The result of one invocation: the exception that reached the caller, if any, and the
  file afterwards. Leaving the \<open>with\<close> block saves the book, also when an exception
  passes through it.
  \<^verbatim>\<open>
  with pd.ExcelWriter(nome_arquivo, engine='openpyxl', mode='a', if_sheet_exists='overlay') as writer:
      try:
          worksheet = writer.book[nome_aba]
          start_row = worksheet.max_row
          resultados.to_excel(writer, sheet_name=nome_aba, index=False, header=False, startrow=start_row)
      except KeyError:
          resultados.to_excel(writer, sheet_name=nome_aba, index=False, header=True)
  \<close>
\<close>

definition try_block :: "dataframe \<Rightarrow> workbook \<Rightarrow> pystr \<Rightarrow> error + workbook" where
  "try_block resultados book nome_aba =
     (case book_getitem book nome_aba of
        Inl e \<Rightarrow> Inl e
      | Inr worksheet \<Rightarrow>
          (case sheet_max_row worksheet of
             Inl e \<Rightarrow> Inl e
           | Inr start_row \<Rightarrow> to_excel resultados book nome_aba False start_row))"

definition salvar_dados_empresa_excel :: "dataframe \<Rightarrow> xlsx \<Rightarrow> pystr \<Rightarrow> error option \<times> xlsx" where
  "salvar_dados_empresa_excel resultados nome_arquivo nome_aba =
     (case nome_arquivo of
        None \<Rightarrow> (Some FileError, None)
      | Some book \<Rightarrow>
          (case try_block resultados book nome_aba of
             Inr book' \<Rightarrow> (None, Some book')
           | Inl e \<Rightarrow>
               if e = KeyError then
                 (case to_excel resultados book nome_aba True 0 of
                    Inr book' \<Rightarrow> (None, Some book')
                  | Inl e' \<Rightarrow> (Some e', Some book))
               else (Some e, Some book)))"

section \<open>The driver\<close>

text \<open>
  The column read from the input sheet: a cell is a string or missing; \<open>dropna()\<close>
  removes the missing ones.
\<close>

definition dropna :: "pystr option list \<Rightarrow> pystr list" where
  "dropna coluna = List.map_filter (\<lambda>x. x) coluna"

text \<open>
  The loop over the identifiers, from the \<open>n\<close>-th request of the run on, with the list
  \<open>resultados\<close> accumulated so far. An exception ends the run.
  \<^verbatim>\<open>
  for cnpj in planilha_cnpjs['CNPJ'].dropna():
      dados_empresa = obter_dados_empresa_por_cnpj(str(cnpj))
      if dados_empresa:
          dados_formatados = formatar_dados(dados_empresa)
          resultados.append(dados_formatados)
  \<close>
\<close>

fun consultar :: "registry \<Rightarrow> nat \<Rightarrow> pystr list \<Rightarrow> (pystr \<times> json) list list
    \<Rightarrow> error + (pystr \<times> json) list list" where
  "consultar net n [] resultados = Inr resultados"
| "consultar net n (cnpj # resto) resultados =
     (case outcome (obter_dados_empresa_por_cnpj net n cnpj) of
        Inl e \<Rightarrow> Inl e
      | Inr None \<Rightarrow> consultar net (Suc n) resto resultados
      | Inr (Some dados_empresa) \<Rightarrow>
          if truthy dados_empresa then
            (case formatar_dados dados_empresa of
               Inl e \<Rightarrow> Inl e
             | Inr dados_formatados \<Rightarrow> consultar net (Suc n) resto (resultados @ [dados_formatados]))
          else consultar net (Suc n) resto resultados)"

text \<open>
  The run: the exception that ended it, if any, the file afterwards, and how many times
  the appender was invoked.
\<close>

record run =
  raised :: "error option"
  arquivo :: xlsx
  appends :: nat

definition Dados :: pystr where
  "Dados = py ''Dados''"

definition main :: "registry \<Rightarrow> pystr option list \<Rightarrow> xlsx \<Rightarrow> run" where
  "main net coluna caminho_planilha =
     (case consultar net 0 (dropna coluna) [] of
        Inl e \<Rightarrow> \<lparr>raised = Some e, arquivo = caminho_planilha, appends = 0\<rparr>
      | Inr resultados \<Rightarrow>
          if resultados \<noteq> [] then
            (case salvar_dados_empresa_excel (DataFrame resultados) caminho_planilha Dados of
               (e, f) \<Rightarrow> \<lparr>raised = e, arquivo = f, appends = 1\<rparr>)
          else \<lparr>raised = None, arquivo = caminho_planilha, appends = 0\<rparr>)"

section \<open>Notions used to state the properties\<close>

text \<open>A registry that gives the same response to every request.\<close>

definition always :: "response \<Rightarrow> registry" where
  "always r n url = Inr r"

text \<open>The parsed document is a mapping whose \<open>status\<close> field is the error sentinel.\<close>

fun error_status :: "json \<Rightarrow> bool" where
  "error_status (JObj d) = (map_of d (py ''status'') = Some ERROR)"
| "error_status _ = False"

definition ativ :: pystr where
  "ativ = py ''atividade_principal''"

text \<open>The string \<open>Com\<close>, e with acute accent (U+00E9), \<open>rcio\<close>.\<close>

definition COMERCIO :: json where
  "COMERCIO = JStr (py ''Com'' @ [233] @ py ''rcio'')"

text \<open>The row of the generic lookups: each field of interest, the empty string when absent.\<close>

definition linha_base :: "(pystr \<times> json) list \<Rightarrow> (pystr \<times> json) list" where
  "linha_base d = map (\<lambda>campo. (campo, dict_get d campo (JStr []))) campos_interesse"

text \<open>
  The row an identifier contributes to the batch, as the code decides it: the formatted
  record when the \<open>i\<close>-th lookup of the run returned a record that the test
  \<open>if dados_empresa:\<close> accepts, none otherwise. The batch of a column is made of these
  rows, in the order of the identifiers.
\<close>

definition row_of :: "registry \<Rightarrow> nat \<Rightarrow> pystr \<Rightarrow> (pystr \<times> json) list option" where
  "row_of net i cnpj =
     (case outcome (obter_dados_empresa_por_cnpj net i cnpj) of
        Inr (Some dados) \<Rightarrow>
          if truthy dados then (case formatar_dados dados of Inr r \<Rightarrow> Some r | Inl e \<Rightarrow> None)
          else None
      | _ \<Rightarrow> None)"

definition batch_of :: "registry \<Rightarrow> nat \<Rightarrow> pystr list \<Rightarrow> (pystr \<times> json) list list" where
  "batch_of net n cnpjs = List.map_filter (\<lambda>(i, cnpj). row_of net i cnpj) (List.enumerate n cnpjs)"

text \<open>
  The same in the words of the specification: a row for every identifier whose lookup
  yielded a record, that is, returned anything but \<open>None\<close>.
\<close>

definition row_of_record :: "registry \<Rightarrow> nat \<Rightarrow> pystr \<Rightarrow> (pystr \<times> json) list option" where
  "row_of_record net i cnpj =
     (case outcome (obter_dados_empresa_por_cnpj net i cnpj) of
        Inr (Some dados) \<Rightarrow> (case formatar_dados dados of Inr r \<Rightarrow> Some r | Inl e \<Rightarrow> None)
      | _ \<Rightarrow> None)"

definition batch_of_records :: "registry \<Rightarrow> nat \<Rightarrow> pystr list \<Rightarrow> (pystr \<times> json) list list" where
  "batch_of_records net n cnpjs =
     List.map_filter (\<lambda>(i, cnpj). row_of_record net i cnpj) (List.enumerate n cnpjs)"

text \<open>Responses and registries of the examples.\<close>

definition empty_200 :: response where
  "empty_200 = \<lparr>status = 200, body = Parsed (JObj [])\<rparr>"

definition not_found :: response where
  "not_found = \<lparr>status = 404, body = Malformed\<rparr>"

definition acme :: json where
  "acme = JObj [(py ''nome'', JStr (py ''ACME'')), (py ''uf'', JStr (py ''SP''))]"

definition acme_row :: "(pystr \<times> json) list" where
  "acme_row =
     [(py ''cnpj'', JStr []), (py ''nome'', JStr (py ''ACME'')), (py ''telefone'', JStr []),
      (py ''email'', JStr []), (py ''logradouro'', JStr []), (py ''bairro'', JStr []),
      (py ''municipio'', JStr []), (py ''uf'', JStr (py ''SP'')), (py ''cep'', JStr []),
      (py ''atividade_principal'', JStr [])]"

text \<open>A registry that knows one company and answers 404 for every other path.\<close>

definition one_company :: registry where
  "one_company n url =
     (if url = py ''/v1/cnpj/11222333000181'' then Inr \<lparr>status = 200, body = Parsed acme\<rparr>
      else Inr not_found)"

text \<open>
  Reading a sheet: the value of the cell at a row and column (from 1), if there is one.
  Reading a table of rows: \<open>grid_at\<close> counts from 0, \<open>table_at\<close> lays the table on
  the sheet with its first row in row 1 and its first column in column 1.
\<close>

definition cell_at :: "cells \<Rightarrow> nat \<Rightarrow> nat \<Rightarrow> json option" where
  "cell_at cs r c = map_of cs (r, c)"

definition grid_at :: "json list list \<Rightarrow> nat \<Rightarrow> nat \<Rightarrow> json option" where
  "grid_at g i j = (if i < length g \<and> j < length (g ! i) then Some (g ! i ! j) else None)"

definition table_at :: "json list list \<Rightarrow> nat \<Rightarrow> nat \<Rightarrow> json option" where
  "table_at g r c = (if 1 \<le> r \<and> 1 \<le> c then grid_at g (r - 1) (c - 1) else None)"

text \<open>A frame that has columns, each row with one value per column.\<close>

definition wf_frame :: "dataframe \<Rightarrow> bool" where
  "wf_frame df =
     (columns df \<noteq> [] \<and> list_all (\<lambda>row. length row = length (columns df)) (rows df))"

text \<open>A formatted row: a dict of the ten fields, in their order.\<close>

definition formatted :: "(pystr \<times> json) list \<Rightarrow> bool" where
  "formatted row = (map fst row = campos_interesse)"

text \<open>The workbook of the examples: the input sheet alone, with its header and one identifier.\<close>

definition planilha :: workbook where
  "planilha =
     [(py ''CNPJ'', Worksheet [((1, 1), JStr (py ''CNPJ'')), ((2, 1), JStr (py ''11.222.333/0001-81''))])]"

text \<open>
  A book in which the sheet \<open>Dados\<close> exists and has no cell, and the cells of the one
  row of the examples laid in row 2.
\<close>

definition planilha_aba_vazia :: workbook where
  "planilha_aba_vazia = planilha @ [(Dados, Worksheet [])]"

definition acme_na_linha_2 :: cells where
  "acme_na_linha_2 =
     [((2, 10), JStr []), ((2, 9), JStr []), ((2, 8), JStr (py ''SP'')), ((2, 7), JStr []),
      ((2, 6), JStr []), ((2, 5), JStr []), ((2, 4), JStr []), ((2, 3), JStr []),
      ((2, 2), JStr (py ''ACME'')), ((2, 1), JStr [])]"

section \<open>Properties of the normalizer\<close>

lemmas digit_defs = limpar_cnpj_def py_def str_isdigit_def isdigit_ranges_def ascii_digit_def

lemma str_isdigit_ascii: "c < 128 \<Longrightarrow> str_isdigit c = ascii_digit c"
  by (auto simp add: str_isdigit_def isdigit_ranges_def ascii_digit_def)

text \<open>
  What holds of the normalizer on every string: the result is a subsequence of the input,
  so the order is kept and the length does not grow; every character kept satisfies
  \<open>str.isdigit\<close>; on an input of ASCII characters only the digits 0 to 9 remain.
\<close>

lemma limpar_cnpj_subseq:
  "subseq (limpar_cnpj s) s \<and> length (limpar_cnpj s) \<le> length s
   \<and> list_all str_isdigit (limpar_cnpj s)"
  by (simp add: limpar_cnpj_def list_all_iff)

lemma limpar_cnpj_ascii_input:
  "list_all (\<lambda>c. c < 128) s \<Longrightarrow> list_all ascii_digit (limpar_cnpj s)"
  by (auto simp add: limpar_cnpj_def list_all_iff str_isdigit_ascii)

lemma limpar_cnpj_examples:
  "limpar_cnpj (py ''12.345/678-90'') = py ''1234567890''
   \<and> limpar_cnpj [] = [] \<and> limpar_cnpj (py ''abc'') = []"
  by (simp add: digit_defs)

text \<open>
  C5. The claim is that the result holds the ASCII characters 0 to 9 only. On the input
  made of the digit 1 followed by the superscript two (U+00B2), a character that
  \<open>str.isdigit\<close> accepts, the normalizer returns the input unchanged, so the result holds a
  character that is no ASCII digit.
\<close>

theorem limpar_cnpj_superscript_two:
  "limpar_cnpj [49, 178] = [49, 178] \<and> \<not> list_all ascii_digit (limpar_cnpj [49, 178])"
  by (simp add: digit_defs)

text \<open>
  Such an identifier does not reach the registry: the request line cannot be encoded, and
  the lookup raises whatever the registry would answer.
\<close>

lemma obter_dados_superscript_two:
  "outcome (obter_dados_empresa_por_cnpj net n [49, 178]) = Inl UnicodeEncodeError"
  by (simp add: obter_dados_empresa_por_cnpj_def request_def digit_defs)

text \<open>
  C10. The normalizer is idempotent: normalizing a normalized string changes nothing.
\<close>

theorem limpar_cnpj_idempotent: "limpar_cnpj (limpar_cnpj s) = limpar_cnpj s"
  by (simp add: limpar_cnpj_def)

section \<open>Properties of the registry client\<close>

lemma key_in: "(k \<in> fst ` set d) = (map_of d k \<noteq> None)"
  by (simp add: map_of_eq_None_iff)

text \<open>
  What the lookup does when the round trip gives a response: it returns
  \<open>None\<close> exactly when the status is not 200 or the body parses to a mapping whose
  \<open>status\<close> field is the error sentinel, and then the connection has been closed and
  nothing is raised; a 200 response whose body does not parse raises; a 200 response
  whose body parses to a mapping without the error sentinel is returned as the record. A
  parsed document that is no mapping is returned only when the test
  \<open>"status" in empresa\<close> is defined on it and false (a list without that element, a
  string without that substring); on every other document the lookup raises TypeError.
\<close>

lemma obter_dados_cases:
  assumes "request net n (py ''/v1/cnpj/'' @ limpar_cnpj cnpj) = Inr resposta"
  shows "(outcome (obter_dados_empresa_por_cnpj net n cnpj) = Inr None \<longleftrightarrow>
           status resposta \<noteq> 200 \<or> (\<exists>j. body resposta = Parsed j \<and> error_status j))
       \<and> (outcome (obter_dados_empresa_por_cnpj net n cnpj) = Inr None \<longrightarrow>
           closed (obter_dados_empresa_por_cnpj net n cnpj))
       \<and> (status resposta = 200 \<and> body resposta = Malformed \<longrightarrow>
           outcome (obter_dados_empresa_por_cnpj net n cnpj) = Inl ParseError)
       \<and> (\<forall>d. status resposta = 200 \<and> body resposta = Parsed (JObj d) \<and> \<not> error_status (JObj d) \<longrightarrow>
           outcome (obter_dados_empresa_por_cnpj net n cnpj) = Inr (Some (JObj d)))
       \<and> (\<forall>j. status resposta = 200 \<and> body resposta = Parsed j \<and> (\<forall>d. j \<noteq> JObj d) \<longrightarrow>
           outcome (obter_dados_empresa_por_cnpj net n cnpj) =
             (if py_in (py ''status'') j = Inr False then Inr (Some j) else Inl TypeError))"
proof (cases "status resposta = 200")
  case False
  with assms show ?thesis by (simp add: obter_dados_empresa_por_cnpj_def)
next
  case True
  show ?thesis
  proof (cases "body resposta")
    case Unreadable
    with True assms show ?thesis by (simp add: obter_dados_empresa_por_cnpj_def)
  next
    case Malformed
    with True assms show ?thesis by (simp add: obter_dados_empresa_por_cnpj_def)
  next
    case (Parsed j)
    with True assms show ?thesis
      by (cases j)
        (auto simp add: obter_dados_empresa_por_cnpj_def key_in
          split: option.splits bool.splits sum.splits)
  qed
qed

text \<open>
  These cases at a registry that answers 200 with the body \<open>{"status": "ERROR"}\<close>: the
  lookup returns \<open>None\<close> and the connection is closed.
\<close>

lemma obter_dados_cases_example:
  "request (always \<lparr>status = 200, body = Parsed (JObj [(py ''status'', ERROR)])\<rparr>) 0
     (py ''/v1/cnpj/'' @ limpar_cnpj (py ''11.222.333/0001-81''))
     = Inr \<lparr>status = 200, body = Parsed (JObj [(py ''status'', ERROR)])\<rparr>
   \<and> outcome (obter_dados_empresa_por_cnpj
        (always \<lparr>status = 200, body = Parsed (JObj [(py ''status'', ERROR)])\<rparr>) 0
        (py ''11.222.333/0001-81'')) = Inr None
   \<and> closed (obter_dados_empresa_por_cnpj
        (always \<lparr>status = 200, body = Parsed (JObj [(py ''status'', ERROR)])\<rparr>) 0
        (py ''11.222.333/0001-81''))"
proof -
  have h: "request (always \<lparr>status = 200, body = Parsed (JObj [(py ''status'', ERROR)])\<rparr>) 0
     (py ''/v1/cnpj/'' @ limpar_cnpj (py ''11.222.333/0001-81''))
     = Inr \<lparr>status = 200, body = Parsed (JObj [(py ''status'', ERROR)])\<rparr>"
    by (simp add: request_def always_def digit_defs)
  show ?thesis
    using h obter_dados_cases [OF h] by simp
qed

text \<open>
  C4. The claim is that a 200 response whose body parses and carries no error sentinel
  is returned as the record, and that only an unparseable body makes the lookup raise.
  On the registry that answers 200 with the body \<open>5\<close>, which parses and has no
  \<open>status\<close> field, the test \<open>"status" in empresa\<close> raises TypeError: the lookup
  returns neither the parsed document nor \<open>None\<close>, the exception reaches the caller.
\<close>

theorem obter_dados_number_body:
  "outcome (obter_dados_empresa_por_cnpj (always \<lparr>status = 200, body = Parsed (JInt 5)\<rparr>) 0
     (py ''11222333000181'')) = Inl TypeError"
  by (simp add: obter_dados_empresa_por_cnpj_def request_def always_def digit_defs)

section \<open>Properties of the formatter\<close>

lemma campos_distinct: "distinct campos_interesse"
  by (simp add: campos_interesse_def py_def)

lemma ativ_campo: "ativ \<in> set campos_interesse"
  by (simp add: campos_interesse_def ativ_def)

lemma map_of_dict_setitem: "map_of (dict_setitem d k v) k = Some v"
  by (induction d k v rule: dict_setitem.induct) auto

lemma keys_dict_setitem: "k \<in> set (map fst d) \<Longrightarrow> map fst (dict_setitem d k v) = map fst d"
  by (induction d k v rule: dict_setitem.induct) auto

lemma map_of_tabulate:
  "map_of (map (\<lambda>c. (c, f c)) cs) k = (if k \<in> set cs then Some (f k) else None)"
  by (induction cs) auto

lemma formatar_dados_unfold:
  "formatar_dados (JObj d) =
     (case map_of d ativ of
        None \<Rightarrow> Inr (linha_base d)
      | Some a \<Rightarrow>
          if truthy a then
            (case getitem0 a of
               Inl e \<Rightarrow> Inl e
             | Inr x \<Rightarrow> (case py_get x (py ''text'') (JStr []) of
                          Inl e \<Rightarrow> Inl e
                        | Inr t \<Rightarrow> Inr (dict_setitem (linha_base d) ativ t)))
          else Inr (linha_base d))"
  unfolding formatar_dados_def linha_base_def ativ_def Let_def
  by (auto simp add: key_in dict_get_def split: option.splits)

text \<open>Every row the formatter returns has the ten fields, in the order of the list.\<close>

lemma formatar_dados_keys: "formatar_dados empresa = Inr row \<Longrightarrow> map fst row = campos_interesse"
proof (cases empresa)
  case (JObj d)
  have b: "map fst (linha_base d) = campos_interesse"
    by (simp add: linha_base_def comp_def)
  have "ativ \<in> set (map fst (linha_base d))"
    using ativ_campo by (simp add: b)
  then have s: "map fst (dict_setitem (linha_base d) ativ t) = campos_interesse" for t
    by (simp add: keys_dict_setitem b)
  assume "formatar_dados empresa = Inr row"
  then show ?thesis
    unfolding JObj formatar_dados_unfold
    by (auto simp add: b s split: option.splits if_splits sum.splits)
qed (simp_all add: formatar_dados_def)

lemma getitem0_ok:
  "truthy a \<Longrightarrow>
   (\<exists>x. getitem0 a = Inr x \<and> (\<exists>t. py_get x k dflt = Inr t)) \<longleftrightarrow> (\<exists>d' xs. a = JArr (JObj d' # xs))"
  apply (cases a)
        apply simp_all
  subgoal for s by (cases s) simp_all
  subgoal for xs
    apply (cases xs)
     apply simp
    subgoal for x ys by (cases x) simp_all
    done
  done

text \<open>
  C6, as the code has it. The formatter is a function of its argument alone. On a mapping
  it returns a row exactly when the \<open>atividade_principal\<close> field is absent, or falsy, or a
  list whose first element is a mapping; on every other mapping it raises. A mapping
  that has none of the ten fields gives the row of ten empty strings. When the field is
  the list holding the one mapping with \<open>text\<close> set to \<open>COMERCIO\<close>, the row's activity
  field is that text.
\<close>

theorem formatar_dados_mapping:
  "((\<exists>row. formatar_dados (JObj d) = Inr row) \<longleftrightarrow>
      (case map_of d ativ of
         None \<Rightarrow> True
       | Some a \<Rightarrow> \<not> truthy a \<or> (\<exists>d' xs. a = JArr (JObj d' # xs))))
   \<and> ((\<forall>campo \<in> set campos_interesse. map_of d campo = None) \<longrightarrow>
        formatar_dados (JObj d) = Inr (map (\<lambda>campo. (campo, JStr [])) campos_interesse))
   \<and> (map_of d ativ = Some (JArr [JObj [(py ''text'', COMERCIO)]]) \<longrightarrow>
        (\<exists>row. formatar_dados (JObj d) = Inr row \<and> map_of row ativ = Some COMERCIO))"
proof (intro conjI impI)
  show "(\<exists>row. formatar_dados (JObj d) = Inr row) \<longleftrightarrow>
      (case map_of d ativ of
         None \<Rightarrow> True
       | Some a \<Rightarrow> \<not> truthy a \<or> (\<exists>d' xs. a = JArr (JObj d' # xs)))"
  proof (cases "map_of d ativ")
    case None
    then show ?thesis by (simp add: formatar_dados_unfold)
  next
    case (Some a)
    show ?thesis
    proof (cases "truthy a")
      case False
      with Some show ?thesis by (simp add: formatar_dados_unfold)
    next
      case True
      have "(\<exists>row. formatar_dados (JObj d) = Inr row) \<longleftrightarrow>
            (\<exists>x. getitem0 a = Inr x \<and> (\<exists>t. py_get x (py ''text'') (JStr []) = Inr t))"
        using Some True by (auto simp add: formatar_dados_unfold split: sum.splits)
      with getitem0_ok[OF True] Some True show ?thesis by simp
    qed
  qed
next
  assume a: "\<forall>campo \<in> set campos_interesse. map_of d campo = None"
  then have "map_of d ativ = None" using ativ_campo by blast
  moreover have "linha_base d = map (\<lambda>campo. (campo, JStr [])) campos_interesse"
    using a by (simp add: linha_base_def dict_get_def)
  ultimately show "formatar_dados (JObj d) = Inr (map (\<lambda>campo. (campo, JStr [])) campos_interesse)"
    by (simp add: formatar_dados_unfold)
next
  assume "map_of d ativ = Some (JArr [JObj [(py ''text'', COMERCIO)]])"
  then have "formatar_dados (JObj d) = Inr (dict_setitem (linha_base d) ativ COMERCIO)"
    by (simp add: formatar_dados_unfold dict_get_def)
  then show "\<exists>row. formatar_dados (JObj d) = Inr row \<and> map_of row ativ = Some COMERCIO"
    by (simp add: map_of_dict_setitem)
qed

text \<open>
  The theorem at three mappings: one without any field, one whose activity is the list of
  one mapping with the text, one whose activity is a number.
\<close>

theorem formatar_dados_mapping_witness:
  "formatar_dados (JObj []) = Inr (map (\<lambda>campo. (campo, JStr [])) campos_interesse)
   \<and> map_of [(ativ, JArr [JObj [(py ''text'', COMERCIO)]])] ativ
       = Some (JArr [JObj [(py ''text'', COMERCIO)]])
   \<and> (\<exists>row. formatar_dados (JObj [(ativ, JArr [JObj [(py ''text'', COMERCIO)]])]) = Inr row
         \<and> map_of row ativ = Some COMERCIO)
   \<and> (\<nexists>row. formatar_dados (JObj [(ativ, JInt 5)]) = Inr row)"
  using formatar_dados_mapping [of "[]"]
    formatar_dados_mapping [of "[(ativ, JArr [JObj [(py ''text'', COMERCIO)]])]"]
    formatar_dados_mapping [of "[(ativ, JInt 5)]"]
  by simp

text \<open>
  The claim says that the formatter is total on mappings. On the mapping whose activity
  is the number 5 the subscript \<open>[0]\<close> raises TypeError, and no row is returned.
\<close>

theorem formatar_dados_number_activity:
  "formatar_dados (JObj [(ativ, JInt 5)]) = Inl TypeError"
  by (simp add: formatar_dados_def campos_interesse_def dict_get_def py_def ativ_def)

text \<open>
  On the mapping whose activity is the empty list the special case is skipped, and the
  row keeps the list that the generic lookup found where the other paths put a string.
\<close>

lemma formatar_dados_empty_list:
  "formatar_dados (JObj [(ativ, JArr [])]) =
     Inr [(py ''cnpj'', JStr []), (py ''nome'', JStr []), (py ''telefone'', JStr []),
          (py ''email'', JStr []), (py ''logradouro'', JStr []), (py ''bairro'', JStr []),
          (py ''municipio'', JStr []), (py ''uf'', JStr []), (py ''cep'', JStr []),
          (ativ, JArr [])]"
  by (simp add: formatar_dados_def campos_interesse_def dict_get_def py_def ativ_def)

section \<open>Properties of the driver\<close>

lemma consultar_acc:
  "consultar net n cnpjs acc = Inr resultados \<Longrightarrow> resultados = acc @ batch_of net n cnpjs"
proof (induction cnpjs arbitrary: n acc)
  case Nil
  then show ?case by (simp add: batch_of_def List.map_filter_simps)
next
  case (Cons c cs)
  show ?case
  proof (cases "outcome (obter_dados_empresa_por_cnpj net n c)")
    case (Inl e)
    with Cons.prems show ?thesis by simp
  next
    case (Inr r)
    show ?thesis
    proof (cases r)
      case None
      with Inr Cons.prems have "consultar net (Suc n) cs acc = Inr resultados" by simp
      from Cons.IH[OF this] Inr None show ?thesis
        by (simp add: batch_of_def List.map_filter_simps row_of_def)
    next
      case (Some dados)
      show ?thesis
      proof (cases "truthy dados")
        case False
        with Inr Some Cons.prems have "consultar net (Suc n) cs acc = Inr resultados" by simp
        from Cons.IH[OF this] Inr Some False show ?thesis
          by (simp add: batch_of_def List.map_filter_simps row_of_def)
      next
        case True
        show ?thesis
        proof (cases "formatar_dados dados")
          case (Inl e)
          with Inr Some True Cons.prems show ?thesis by simp
        next
          case (Inr row)
          with \<open>outcome (obter_dados_empresa_por_cnpj net n c) = Inr r\<close> Some True Cons.prems
          have "consultar net (Suc n) cs (acc @ [row]) = Inr resultados" by simp
          from Cons.IH[OF this] \<open>outcome (obter_dados_empresa_por_cnpj net n c) = Inr r\<close>
            Some True Inr
          show ?thesis
            by (simp add: batch_of_def List.map_filter_simps row_of_def)
        qed
      qed
    qed
  qed
qed

lemma length_map_filter_le: "length (List.map_filter f xs) \<le> length xs"
  by (induction xs) (auto simp add: List.map_filter_simps split: option.splits)

lemma batch_of_origin:
  "r \<in> set (batch_of net n cnpjs) \<Longrightarrow>
   \<exists>i<length cnpjs. row_of net (n + i) (cnpjs ! i) = Some r"
proof (induction cnpjs arbitrary: n)
  case Nil
  then show ?case by (simp add: batch_of_def List.map_filter_simps)
next
  case (Cons c cs)
  from Cons.prems have "row_of net n c = Some r \<or> r \<in> set (batch_of net (Suc n) cs)"
    by (auto simp add: batch_of_def List.map_filter_simps split: option.splits)
  then show ?case
  proof
    assume "row_of net n c = Some r"
    then have "row_of net (n + 0) ((c # cs) ! 0) = Some r" by simp
    then show ?thesis by blast
  next
    assume "r \<in> set (batch_of net (Suc n) cs)"
    from Cons.IH[OF this] obtain i where "i < length cs" "row_of net (Suc n + i) (cs ! i) = Some r"
      by blast
    then have "Suc i < length (c # cs) \<and> row_of net (n + Suc i) ((c # cs) ! Suc i) = Some r"
      by simp
    then show ?thesis by blast
  qed
qed

lemma row_of_Some:
  "row_of net i cnpj = Some r \<Longrightarrow>
   \<exists>dados. outcome (obter_dados_empresa_por_cnpj net i cnpj) = Inr (Some dados)
     \<and> truthy dados \<and> formatar_dados dados = Inr r"
  by (auto simp add: row_of_def split: sum.splits option.splits if_splits)

lemma obter_empty_200:
  "outcome (obter_dados_empresa_por_cnpj (always empty_200) n (py ''11222333000181''))
     = Inr (Some (JObj []))"
  by (simp add: obter_dados_empresa_por_cnpj_def request_def always_def empty_200_def digit_defs)

lemma obter_not_found:
  "outcome (obter_dados_empresa_por_cnpj (always not_found) n (py ''99999999999'')) = Inr None"
  by (simp add: obter_dados_empresa_por_cnpj_def request_def always_def not_found_def digit_defs)

text \<open>
  What the loop accumulates. When the loop over the identifiers ends without an exception,
  the accumulated batch is the sequence of the formatted rows of the identifiers whose
  lookup returned a record that is truthy, in the order of the identifiers; it is no
  longer than the list of identifiers; and every row in it is the formatted record of
  an identifier whose lookup returned that truthy record, so none comes from a lookup
  that failed or returned \<open>None\<close>.
\<close>

lemma consultar_batch:
  assumes "consultar net n cnpjs [] = Inr resultados"
  shows "resultados = batch_of net n cnpjs
       \<and> length resultados \<le> length cnpjs
       \<and> (\<forall>r \<in> set resultados. \<exists>i<length cnpjs. \<exists>dados.
             outcome (obter_dados_empresa_por_cnpj net (n + i) (cnpjs ! i)) = Inr (Some dados)
             \<and> truthy dados \<and> formatar_dados dados = Inr r)"
proof -
  have eq: "resultados = batch_of net n cnpjs"
    using consultar_acc[OF assms] by simp
  have "length (batch_of net n cnpjs) \<le> length (List.enumerate n cnpjs)"
    unfolding batch_of_def by (rule length_map_filter_le)
  then have len: "length resultados \<le> length cnpjs" by (simp add: eq)
  have "\<exists>i<length cnpjs. \<exists>dados.
             outcome (obter_dados_empresa_por_cnpj net (n + i) (cnpjs ! i)) = Inr (Some dados)
             \<and> truthy dados \<and> formatar_dados dados = Inr r" if "r \<in> set resultados" for r
  proof -
    from that eq batch_of_origin obtain i
      where "i < length cnpjs" "row_of net (n + i) (cnpjs ! i) = Some r"
      by blast
    with row_of_Some show ?thesis by blast
  qed
  with eq len show ?thesis by blast
qed

text \<open>
  C7. The claim is that the batch holds, in the order of the identifiers, a row for
  every identifier that yielded a record. On one identifier and the registry that answers
  200 with the body \<open>{}\<close>, the lookup returns the empty mapping, which is a record and
  not \<open>None\<close>, and which the formatter turns into the row of ten empty strings; the
  batch of the claim is that one row, and the loop ends with the empty batch.
\<close>

theorem consultar_empty_record:
  "outcome (obter_dados_empresa_por_cnpj (always empty_200) 0 (py ''11222333000181''))
     = Inr (Some (JObj []))
   \<and> formatar_dados (JObj []) = Inr (linha_base [])
   \<and> batch_of_records (always empty_200) 0 [py ''11222333000181''] = [linha_base []]
   \<and> consultar (always empty_200) 0 [py ''11222333000181''] [] = Inr []"
  by (simp add: obter_empty_200 batch_of_records_def row_of_record_def
      formatar_dados_unfold ativ_def)

text \<open>
  C9. When a lookup returns a record that is falsy (the empty mapping of a 200 response
  with the body \<open>{}\<close>, for one), the loop goes on to the next identifier with the batch
  unchanged: the record is not formatted and no row is added.
\<close>

theorem consultar_falsy_record:
  assumes "outcome (obter_dados_empresa_por_cnpj net n cnpj) = Inr (Some dados)"
      and "\<not> truthy dados"
  shows "consultar net n (cnpj # resto) resultados = consultar net (Suc n) resto resultados"
  using assms by simp

text \<open>This is what the loop does after a lookup that returned \<open>None\<close>.\<close>

lemma consultar_absent:
  assumes "outcome (obter_dados_empresa_por_cnpj net n cnpj) = Inr None"
  shows "consultar net n (cnpj # resto) resultados = consultar net (Suc n) resto resultados"
  using assms by simp

theorem consultar_falsy_record_witness:
  "outcome (obter_dados_empresa_por_cnpj (always empty_200) 0 (py ''11222333000181''))
     = Inr (Some (JObj []))
   \<and> \<not> truthy (JObj [])
   \<and> consultar (always empty_200) 0 [py ''11222333000181''] [] = Inr []"
  using consultar_falsy_record [OF obter_empty_200, of 0 "[]" "[]"] obter_empty_200 [of 0]
  by simp

text \<open>
  C8. When the batch is empty at the end of the loop, the run ends without invoking the
  appender: the file is what it was, and nothing is raised.
\<close>

theorem main_empty_batch:
  assumes "consultar net 0 (dropna coluna) [] = Inr []"
  shows "main net coluna f = \<lparr>raised = None, arquivo = f, appends = 0\<rparr>"
  using assms by (simp add: main_def)

lemma consultar_all_not_found:
  "consultar (always not_found) 0 (dropna [Some (py ''99999999999''), None]) [] = Inr []"
  by (simp add: dropna_def obter_not_found)

theorem main_empty_batch_witness:
  "consultar (always not_found) 0 (dropna [Some (py ''99999999999''), None]) [] = Inr []
   \<and> main (always not_found) [Some (py ''99999999999''), None] (Some [])
       = \<lparr>raised = None, arquivo = Some [], appends = 0\<rparr>"
  using main_empty_batch [OF consultar_all_not_found] consultar_all_not_found by simp

section \<open>Properties of the appender\<close>

lemma write_cells_Nil: "write_cells cs s [] = cs"
  by (simp add: write_cells_def)

lemma write_cells_Cons:
  "write_cells cs s ((r, c, v) # fc) = write_cells (((s + r + 1, c + 1), v) # cs) s fc"
  by (simp add: write_cells_def)

lemma write_cells_append:
  "write_cells cs s (a @ b) = write_cells (write_cells cs s a) s b"
  by (simp add: write_cells_def)

lemma cell_at_Cons:
  "cell_at (((r, c), v) # cs) r' c' = (if r' = r \<and> c' = c then Some v else cell_at cs r' c')"
  by (simp add: cell_at_def)

lemma cell_at_row:
  "cell_at (write_cells cs s (row_cells r c0 vs)) r' c' =
     (if r' = s + r + 1 \<and> c0 < c' \<and> c' \<le> c0 + length vs then Some (vs ! (c' - c0 - 1))
      else cell_at cs r' c')"
proof (induction vs arbitrary: cs c0)
  case Nil
  then show ?case by (auto simp add: write_cells_Nil)
next
  case (Cons v vs)
  show ?case
    by (auto simp add: write_cells_Cons Cons.IH cell_at_Cons nth_Cons' )
qed

lemma cell_at_rows:
  "cell_at (write_cells cs s (rows_cells r0 vss)) r' c' =
     (if s + r0 < r' \<and> 1 \<le> c' then
        (case grid_at vss (r' - s - r0 - 1) (c' - 1) of
           Some v \<Rightarrow> Some v
         | None \<Rightarrow> cell_at cs r' c')
      else cell_at cs r' c')"
proof (induction vss arbitrary: cs r0 r' c')
  case Nil
  then show ?case by (simp add: write_cells_Nil grid_at_def)
next
  case (Cons vs vss)
  show ?case
  proof (cases "r' = s + r0 + 1")
    case True
    then show ?thesis
      by (auto simp add: write_cells_append Cons.IH cell_at_row grid_at_def)
  next
    case False
    then show ?thesis
      by (auto simp add: write_cells_append Cons.IH cell_at_row grid_at_def nth_Cons'
          split: option.splits)
  qed
qed


lemma foldr_max_ge: "x \<in> set xs \<Longrightarrow> x \<le> foldr max xs (0::nat)"
  by (induction xs) auto

lemma foldr_max_mem: "xs \<noteq> [] \<Longrightarrow> foldr max xs (0::nat) \<in> set xs"
proof (induction xs)
  case Nil
  then show ?case by simp
next
  case (Cons x xs)
  show ?case
  proof (cases "xs = []")
    case True
    then show ?thesis by simp
  next
    case False
    with Cons.IH have m: "foldr max xs 0 \<in> set xs" by simp
    have "max x (foldr max xs 0) = x \<or> max x (foldr max xs 0) = foldr max xs 0"
      by (simp add: max_def)
    with m show ?thesis by auto
  qed
qed

lemma max_row_bound: "cell_at cs r c = Some v \<Longrightarrow> r \<le> max_row cs"
proof -
  assume h: "cell_at cs r c = Some v"
  then have "((r, c), v) \<in> set cs"
    by (simp add: cell_at_def map_of_SomeD)
  then have "r \<in> set (map (\<lambda>((r, c), v). r) cs)" by force
  moreover from h have "cs \<noteq> []" by (auto simp add: cell_at_def)
  ultimately show ?thesis by (simp add: max_row_def foldr_max_ge)
qed

lemma max_row_occupied:
  assumes "cs \<noteq> []"
  shows "\<exists>c v. cell_at cs (max_row cs) c = Some v"
proof -
  from assms have "map (\<lambda>((r, c), v). r) cs \<noteq> []" by simp
  from foldr_max_mem[OF this] assms have "max_row cs \<in> set (map (\<lambda>((r, c), v). r) cs)"
    by (simp add: max_row_def)
  then obtain c v where "((max_row cs, c), v) \<in> set cs" by auto
  then have "(max_row cs, c) \<in> fst ` set cs" by force
  then have "map_of cs (max_row cs, c) \<noteq> None" by (simp add: map_of_eq_None_iff)
  then show ?thesis by (auto simp add: cell_at_def)
qed

lemma max_row_eq:
  assumes "cell_at cs m c0 = Some v0"
      and "\<And>r c v. cell_at cs r c = Some v \<Longrightarrow> r \<le> m"
  shows "max_row cs = m"
proof -
  from assms(1) have ne: "cs \<noteq> []" by (auto simp add: cell_at_def)
  from max_row_occupied[OF ne] assms(2) have "max_row cs \<le> m" by blast
  moreover from max_row_bound[OF assms(1)] have "m \<le> max_row cs" .
  ultimately show ?thesis by simp
qed

lemma map_of_book_setsheet:
  "map_of (book_setsheet b k sh) k' =
     (if k' = k then (case map_of b k of None \<Rightarrow> None | Some old \<Rightarrow> Some sh) else map_of b k')"
  by (induction b k sh rule: book_setsheet.induct) auto

lemma titles_book_setsheet: "map fst (book_setsheet b k sh) = map fst b"
  by (induction b k sh rule: book_setsheet.induct) auto

lemma salvar_absent:
  "map_of book aba = None \<Longrightarrow>
   salvar_dados_empresa_excel df (Some book) aba =
     (None, Some (book @ [(aba, Worksheet (write_cells [] 0 (frame_cells df True)))]))"
  by (simp add: salvar_dados_empresa_excel_def try_block_def book_getitem_def to_excel_def)

lemma salvar_worksheet:
  "map_of book aba = Some (Worksheet cs) \<Longrightarrow>
   salvar_dados_empresa_excel df (Some book) aba =
     (None, Some (book_setsheet book aba
        (Worksheet (write_cells cs (max_row cs) (frame_cells df False)))))"
  by (simp add: salvar_dados_empresa_excel_def try_block_def book_getitem_def to_excel_def)

lemma salvar_chartsheet:
  "map_of book aba = Some Chartsheet \<Longrightarrow>
   salvar_dados_empresa_excel df (Some book) aba = (Some AttributeError, Some book)"
  by (simp add: salvar_dados_empresa_excel_def try_block_def book_getitem_def)

lemma salvar_unopened:
  "salvar_dados_empresa_excel df None aba = (Some FileError, None)"
  by (simp add: salvar_dados_empresa_excel_def)

lemma frame_cells_header:
  "frame_cells df True = rows_cells 0 (map JStr (columns df) # rows df)"
  by (simp add: frame_cells_def)

lemma cell_at_Nil: "cell_at [] r c = None"
  by (simp add: cell_at_def)

lemma created_cells:
  "cell_at (write_cells [] 0 (frame_cells df True)) r c
     = table_at (map JStr (columns df) # rows df) r c"
  unfolding frame_cells_header cell_at_rows
  by (auto simp add: table_at_def cell_at_Nil split: option.splits)

lemma appended_cells:
  "cell_at (write_cells cs (max_row cs) (frame_cells df False)) r c
     = (if max_row cs < r then table_at (rows df) (r - max_row cs) c else cell_at cs r c)"
proof (cases "max_row cs < r")
  case False
  then show ?thesis by (simp add: frame_cells_def cell_at_rows)
next
  case True
  then have "cell_at cs r c = None"
    using max_row_bound[of cs r c] by (cases "cell_at cs r c") auto
  with True show ?thesis
    by (auto simp add: frame_cells_def cell_at_rows table_at_def split: option.splits)
qed

lemma grid_at_append:
  "grid_at (a @ b) i j = (if i < length a then grid_at a i j else grid_at b (i - length a) j)"
  by (auto simp add: grid_at_def nth_append)

lemma table_at_append:
  "table_at (a @ b) r c = (if r \<le> length a then table_at a r c else table_at b (r - length a) c)"
  by (auto simp add: table_at_def grid_at_append)

lemma table_at_bound: "table_at g r c = Some v \<Longrightarrow> r \<le> length g"
  by (auto simp add: table_at_def grid_at_def split: if_splits)

lemma max_row_table:
  assumes "\<And>r c. cell_at cs r c = table_at g r c"
      and "g \<noteq> []" and "last g \<noteq> []"
  shows "max_row cs = length g"
proof (rule max_row_eq)
  from assms(2,3) show "cell_at cs (length g) 1 = Some (last g ! 0)"
    by (simp add: assms(1) table_at_def grid_at_def last_conv_nth Suc_leI)
next
  fix r c v
  assume "cell_at cs r c = Some v"
  then show "r \<le> length g" by (simp add: assms(1) table_at_bound)
qed

lemma first_seen_known:
  "set ks \<subseteq> set acc \<Longrightarrow> fold (\<lambda>k acc. if k \<in> set acc then acc else acc @ [k]) ks acc = acc"
  by (induction ks arbitrary: acc) auto

lemma first_seen_new:
  "distinct ks \<Longrightarrow> set ks \<inter> set acc = {} \<Longrightarrow>
   fold (\<lambda>k acc. if k \<in> set acc then acc else acc @ [k]) ks acc = acc @ ks"
  by (induction ks arbitrary: acc) auto

lemma dict_get_keys:
  "distinct (map fst d) \<Longrightarrow> map (\<lambda>c. dict_get d c x) (map fst d) = map snd d"
proof (induction d)
  case Nil
  then show ?case by simp
next
  case (Cons kv d)
  obtain k v where kv: "kv = (k, v)" by (cases kv)
  from Cons.prems kv have nk: "k \<notin> fst ` set d" and dd: "distinct (map fst d)" by auto
  have "map (\<lambda>c. dict_get (kv # d) c x) (map fst d) = map (\<lambda>c. dict_get d c x) (map fst d)"
    using nk by (auto simp add: dict_get_def kv)
  with Cons.IH[OF dd] show ?case by (simp add: kv dict_get_def)
qed

lemma DataFrame_formatted:
  assumes "resultados \<noteq> []" and "list_all formatted resultados"
  shows "DataFrame resultados = \<lparr>columns = campos_interesse, rows = map (map snd) resultados\<rparr>"
proof -
  from assms(1) obtain r0 rest where rs: "resultados = r0 # rest" by (cases resultados) auto
  from assms(2) have all: "\<And>row. row \<in> set resultados \<Longrightarrow> map fst row = campos_interesse"
    by (simp add: list_all_iff formatted_def)
  have "set (concat (map (map fst) rest)) \<subseteq> set campos_interesse"
    using all rs by auto
  then have fs: "first_seen (concat (map (map fst) resultados)) = campos_interesse"
    using all[of r0] campos_distinct
    by (simp add: rs first_seen_def first_seen_new first_seen_known)
  have "map (\<lambda>c. dict_get d c NaN) campos_interesse = map snd d" if "d \<in> set resultados" for d
    using dict_get_keys[of d NaN] all[OF that] campos_distinct by simp
  then have "map (\<lambda>d. map (\<lambda>c. dict_get d c NaN) campos_interesse) resultados = map (map snd) resultados"
    by simp
  with fs show ?thesis by (simp add: DataFrame_def)
qed

lemma book_setsheet_append:
  "map_of book aba = None \<Longrightarrow> book_setsheet (book @ [(aba, old)]) aba sh = book @ [(aba, sh)]"
  by (induction book aba sh rule: book_setsheet.induct) (auto split: if_splits)

lemma wf_frame_last:
  assumes "wf_frame df"
  shows "last (map JStr (columns df) # rows df) \<noteq> []"
proof (cases "rows df = []")
  case True
  with assms show ?thesis by (simp add: wf_frame_def)
next
  case False
  then have "last (rows df) \<in> set (rows df)" by simp
  with assms have "length (last (rows df)) = length (columns df)"
    by (simp add: wf_frame_def list_all_iff)
  with assms False show ?thesis by (auto simp add: wf_frame_def)
qed
text \<open>
  C1. Take a book without a sheet of the given name, a batch B1 and a batch B2, B1 a frame
  of rows over its columns. Appending B1 creates the sheet; appending B2 to the book so
  obtained succeeds too; and the sheet then holds, from its first row on, the header row
  of the column names, the rows of B1 and the rows of B2, in this order, and no other
  cell. Every cell the sheet held after the first append holds the same value after the
  second: nothing is truncated or overwritten.
\<close>

theorem salvar_two_batches:
  assumes "map_of book aba = None" and "wf_frame df1"
  shows "\<exists>cs1 cs2.
           salvar_dados_empresa_excel df1 (Some book) aba = (None, Some (book @ [(aba, Worksheet cs1)]))
         \<and> salvar_dados_empresa_excel df2 (Some (book @ [(aba, Worksheet cs1)])) aba
             = (None, Some (book @ [(aba, Worksheet cs2)]))
         \<and> (\<forall>r c. cell_at cs2 r c = table_at (map JStr (columns df1) # rows df1 @ rows df2) r c)
         \<and> (\<forall>r c v. cell_at cs1 r c = Some v \<longrightarrow> cell_at cs2 r c = Some v)"
proof -
  define t1 where "t1 = map JStr (columns df1) # rows df1"
  define cs1 where "cs1 = write_cells [] 0 (frame_cells df1 True)"
  define cs2 where "cs2 = write_cells cs1 (max_row cs1) (frame_cells df2 False)"
  have c1: "cell_at cs1 r c = table_at t1 r c" for r c
    by (simp add: cs1_def t1_def created_cells)
  have m1: "max_row cs1 = length t1"
  proof (rule max_row_table)
    show "t1 \<noteq> []" by (simp add: t1_def)
    show "last t1 \<noteq> []" unfolding t1_def using assms(2) by (rule wf_frame_last)
  qed (rule c1)
  have c2: "cell_at cs2 r c = table_at (t1 @ rows df2) r c" for r c
    by (simp only: cs2_def appended_cells) (auto simp add: m1 c1 table_at_append)
  have keep: "cell_at cs2 r c = Some v" if "cell_at cs1 r c = Some v" for r c v
  proof -
    from that have "r \<le> length t1" by (simp add: c1 table_at_bound)
    with that show ?thesis by (simp add: c2 table_at_append c1)
  qed
  have s1: "salvar_dados_empresa_excel df1 (Some book) aba = (None, Some (book @ [(aba, Worksheet cs1)]))"
    using assms(1) by (simp add: salvar_absent cs1_def)
  have "map_of (book @ [(aba, Worksheet cs1)]) aba = Some (Worksheet cs1)"
    using assms(1) by (simp add: map_add_def)
  then have s2: "salvar_dados_empresa_excel df2 (Some (book @ [(aba, Worksheet cs1)])) aba
             = (None, Some (book @ [(aba, Worksheet cs2)]))"
    using assms(1) by (simp add: salvar_worksheet cs2_def book_setsheet_append)
  from s1 s2 c2 keep show ?thesis unfolding t1_def by auto
qed

text \<open>
  One invocation of the appender on a batch that is not empty, the rows being formatted
  rows. If the book has a worksheet of the given name, the book afterwards has the same
  titles in the same order, every other sheet is what it was, and the sheet of that name
  holds the data rows from the row after \<open>max_row\<close> on, with no header row, every
  other cell being what it was; no cell lies beyond \<open>max_row\<close>, and a sheet that has
  cells has one in that row. If the book has no sheet of that name, the sheet is created
  at the end of the book and holds the header row of the ten field names in row 1 and
  the data rows from row 2 on.
\<close>

lemma salvar_non_empty_batch:
  assumes "resultados \<noteq> []" and "list_all formatted resultados"
  shows "(\<forall>cs. map_of book aba = Some (Worksheet cs) \<longrightarrow>
            (\<exists>book' cs'. salvar_dados_empresa_excel (DataFrame resultados) (Some book) aba
                      = (None, Some book')
               \<and> map fst book' = map fst book
               \<and> map_of book' aba = Some (Worksheet cs')
               \<and> (\<forall>t. t \<noteq> aba \<longrightarrow> map_of book' t = map_of book t)
               \<and> (\<forall>r c. cell_at cs' r c =
                     (if max_row cs < r then table_at (map (map snd) resultados) (r - max_row cs) c
                      else cell_at cs r c)))
            \<and> (cs \<noteq> [] \<longrightarrow> (\<exists>c v. cell_at cs (max_row cs) c = Some v))
            \<and> (\<forall>r c v. cell_at cs r c = Some v \<longrightarrow> r \<le> max_row cs))
       \<and> (map_of book aba = None \<longrightarrow>
            (\<exists>cs'. salvar_dados_empresa_excel (DataFrame resultados) (Some book) aba
                      = (None, Some (book @ [(aba, Worksheet cs')]))
               \<and> (\<forall>r c. cell_at cs' r c =
                     table_at (map JStr campos_interesse # map (map snd) resultados) r c)))"
proof -
  have df: "DataFrame resultados = \<lparr>columns = campos_interesse, rows = map (map snd) resultados\<rparr>"
    using assms by (rule DataFrame_formatted)
  show ?thesis
  proof (intro conjI allI impI)
    fix cs
    assume h: "map_of book aba = Some (Worksheet cs)"
    define cs' where "cs' = write_cells cs (max_row cs) (frame_cells (DataFrame resultados) False)"
    define book' where "book' = book_setsheet book aba (Worksheet cs')"
    have "salvar_dados_empresa_excel (DataFrame resultados) (Some book) aba = (None, Some book')"
      using salvar_worksheet[OF h, of "DataFrame resultados"] by (simp add: book'_def cs'_def)
    moreover have "map fst book' = map fst book"
      by (simp add: book'_def titles_book_setsheet)
    moreover have "map_of book' aba = Some (Worksheet cs')"
      using h by (simp add: book'_def map_of_book_setsheet)
    moreover have "\<forall>t. t \<noteq> aba \<longrightarrow> map_of book' t = map_of book t"
      by (simp add: book'_def map_of_book_setsheet)
    moreover have "\<forall>r c. cell_at cs' r c =
                     (if max_row cs < r then table_at (map (map snd) resultados) (r - max_row cs) c
                      else cell_at cs r c)"
      using appended_cells[of cs "DataFrame resultados"] by (simp add: cs'_def df)
    ultimately show "\<exists>book' cs'. salvar_dados_empresa_excel (DataFrame resultados) (Some book) aba
                      = (None, Some book')
               \<and> map fst book' = map fst book
               \<and> map_of book' aba = Some (Worksheet cs')
               \<and> (\<forall>t. t \<noteq> aba \<longrightarrow> map_of book' t = map_of book t)
               \<and> (\<forall>r c. cell_at cs' r c =
                     (if max_row cs < r then table_at (map (map snd) resultados) (r - max_row cs) c
                      else cell_at cs r c))"
      by blast
  next
    fix cs :: cells
    assume "cs \<noteq> []"
    then show "\<exists>c v. cell_at cs (max_row cs) c = Some v" by (rule max_row_occupied)
  next
    fix cs r c v
    assume "cell_at cs r c = Some v"
    then show "r \<le> max_row cs" by (rule max_row_bound)
  next
    assume "map_of book aba = None"
    from salvar_absent[OF this, of "DataFrame resultados"] created_cells[of "DataFrame resultados"]
    show "\<exists>cs'. salvar_dados_empresa_excel (DataFrame resultados) (Some book) aba
                      = (None, Some (book @ [(aba, Worksheet cs')]))
               \<and> (\<forall>r c. cell_at cs' r c =
                     table_at (map JStr campos_interesse # map (map snd) resultados) r c)"
      by (auto simp add: df)
  qed
qed

text \<open>
  C3, as the code has it. The handler catches KeyError only. When the sheet is missing,
  the probe raises KeyError and the rows are written with a header to a new sheet,
  nothing reaching the caller. Any other exception raised in the \<open>try\<close> block reaches
  the caller, the book unchanged: so does the AttributeError raised by \<open>max_row\<close> when
  the name is that of a chart sheet. A file that cannot be opened raises as well.
\<close>

theorem salvar_failures:
  "(map_of book aba = None \<longrightarrow>
      (\<exists>cs'. salvar_dados_empresa_excel df (Some book) aba = (None, Some (book @ [(aba, Worksheet cs')]))
         \<and> (\<forall>r c. cell_at cs' r c = table_at (map JStr (columns df) # rows df) r c)))
   \<and> (\<forall>e. try_block df book aba = Inl e \<and> e \<noteq> KeyError \<longrightarrow>
        salvar_dados_empresa_excel df (Some book) aba = (Some e, Some book))
   \<and> (map_of book aba = Some Chartsheet \<longrightarrow>
        salvar_dados_empresa_excel df (Some book) aba = (Some AttributeError, Some book))
   \<and> salvar_dados_empresa_excel df None aba = (Some FileError, None)"
proof (intro conjI allI impI)
  assume "map_of book aba = None"
  from salvar_absent[OF this, of df] created_cells[of df]
  show "\<exists>cs'. salvar_dados_empresa_excel df (Some book) aba = (None, Some (book @ [(aba, Worksheet cs')]))
         \<and> (\<forall>r c. cell_at cs' r c = table_at (map JStr (columns df) # rows df) r c)"
    by auto
next
  fix e
  assume "try_block df book aba = Inl e \<and> e \<noteq> KeyError"
  then show "salvar_dados_empresa_excel df (Some book) aba = (Some e, Some book)"
    by (simp add: salvar_dados_empresa_excel_def)
next
  assume "map_of book aba = Some Chartsheet"
  then show "salvar_dados_empresa_excel df (Some book) aba = (Some AttributeError, Some book)"
    by (rule salvar_chartsheet)
next
  show "salvar_dados_empresa_excel df None aba = (Some FileError, None)"
    by (rule salvar_unopened)
qed

section \<open>The properties at concrete inputs\<close>

lemma Dados_absent: "map_of planilha Dados = None"
  by (simp add: planilha_def Dados_def py_def)

lemma acme_row_formatted: "formatted acme_row"
  by (simp add: formatted_def acme_row_def campos_interesse_def)

lemma DataFrame_acme:
  "DataFrame [acme_row] = \<lparr>columns = campos_interesse, rows = [map snd acme_row]\<rparr>"
  using DataFrame_formatted [of "[acme_row]"] acme_row_formatted by simp

lemma wf_frame_acme: "wf_frame (DataFrame [acme_row])"
  unfolding wf_frame_def DataFrame_acme by (simp add: acme_row_def campos_interesse_def)

text \<open>
  The theorem of two batches at the book of the examples and twice the batch of the one
  row: the header in row 1, the row in rows 2 and 3, nothing in row 4.
\<close>

theorem salvar_two_batches_witness:
  "map_of planilha Dados = None \<and> wf_frame (DataFrame [acme_row])
   \<and> (\<exists>cs1 cs2.
         salvar_dados_empresa_excel (DataFrame [acme_row]) (Some planilha) Dados
           = (None, Some (planilha @ [(Dados, Worksheet cs1)]))
       \<and> salvar_dados_empresa_excel (DataFrame [acme_row])
             (Some (planilha @ [(Dados, Worksheet cs1)])) Dados
           = (None, Some (planilha @ [(Dados, Worksheet cs2)]))
       \<and> cell_at cs2 1 2 = Some (JStr (py ''nome''))
       \<and> cell_at cs2 2 2 = Some (JStr (py ''ACME''))
       \<and> cell_at cs2 3 2 = Some (JStr (py ''ACME''))
       \<and> cell_at cs2 4 2 = None)"
proof -
  from salvar_two_batches [OF Dados_absent wf_frame_acme, of "DataFrame [acme_row]"]
  obtain cs1 cs2 where
    s1: "salvar_dados_empresa_excel (DataFrame [acme_row]) (Some planilha) Dados
           = (None, Some (planilha @ [(Dados, Worksheet cs1)]))" and
    s2: "salvar_dados_empresa_excel (DataFrame [acme_row])
             (Some (planilha @ [(Dados, Worksheet cs1)])) Dados
           = (None, Some (planilha @ [(Dados, Worksheet cs2)]))" and
    c2: "\<And>r c. cell_at cs2 r c =
           table_at (map JStr (columns (DataFrame [acme_row])) # rows (DataFrame [acme_row])
             @ rows (DataFrame [acme_row])) r c"
    by blast
  have t: "cell_at cs2 r c =
      table_at [map JStr campos_interesse, map snd acme_row, map snd acme_row] r c" for r c
    by (simp add: c2 DataFrame_acme)
  have "cell_at cs2 1 2 = Some (JStr (py ''nome''))" "cell_at cs2 2 2 = Some (JStr (py ''ACME''))"
    "cell_at cs2 3 2 = Some (JStr (py ''ACME''))" "cell_at cs2 4 2 = None"
    by (simp_all add: t table_at_def grid_at_def campos_interesse_def acme_row_def)
  with s1 s2 Dados_absent wf_frame_acme show ?thesis by blast
qed

lemma CNPJ_present:
  "map_of planilha (py ''CNPJ'')
     = Some (Worksheet [((1, 1), JStr (py ''CNPJ'')), ((2, 1), JStr (py ''11.222.333/0001-81''))])"
  by (simp add: planilha_def)

text \<open>
  One invocation at the book of the examples: on the missing sheet \<open>Dados\<close> the header
  is in row 1 and the row in row 2; on the sheet \<open>CNPJ\<close>, whose last occupied row is
  2, the row is in row 3 and the cells of rows 1 and 2 are kept.
\<close>

lemma salvar_non_empty_batch_example:
  "[acme_row] \<noteq> [] \<and> list_all formatted [acme_row] \<and> map_of planilha Dados = None
   \<and> (\<exists>cs'. salvar_dados_empresa_excel (DataFrame [acme_row]) (Some planilha) Dados
               = (None, Some (planilha @ [(Dados, Worksheet cs')]))
         \<and> cell_at cs' 1 2 = Some (JStr (py ''nome''))
         \<and> cell_at cs' 2 2 = Some (JStr (py ''ACME'')))
   \<and> (\<exists>book' cs'. salvar_dados_empresa_excel (DataFrame [acme_row]) (Some planilha) (py ''CNPJ'')
               = (None, Some book')
         \<and> map_of book' (py ''CNPJ'') = Some (Worksheet cs')
         \<and> cell_at cs' 2 1 = Some (JStr (py ''11.222.333/0001-81''))
         \<and> cell_at cs' 3 2 = Some (JStr (py ''ACME'')))"
proof -
  have ne: "[acme_row] \<noteq> []" by simp
  have fm: "list_all formatted [acme_row]" by (simp add: acme_row_formatted)
  have mr: "max_row [((1, 1), JStr (py ''CNPJ'')), ((2, 1), JStr (py ''11.222.333/0001-81''))] = 2"
    by (simp add: max_row_def)
  from salvar_non_empty_batch [OF ne fm, of planilha Dados] Dados_absent
  obtain cs' where
    a: "salvar_dados_empresa_excel (DataFrame [acme_row]) (Some planilha) Dados
               = (None, Some (planilha @ [(Dados, Worksheet cs')]))" and
    b: "\<And>r c. cell_at cs' r c = table_at (map JStr campos_interesse # map (map snd) [acme_row]) r c"
    by auto
  have a2: "cell_at cs' 1 2 = Some (JStr (py ''nome''))" "cell_at cs' 2 2 = Some (JStr (py ''ACME''))"
    by (simp_all add: b table_at_def grid_at_def campos_interesse_def acme_row_def)
  from salvar_non_empty_batch [OF ne fm, of planilha "py ''CNPJ''"] CNPJ_present
  obtain book'' cs'' where
    c: "salvar_dados_empresa_excel (DataFrame [acme_row]) (Some planilha) (py ''CNPJ'')
               = (None, Some book'')" and
    c': "map_of book'' (py ''CNPJ'') = Some (Worksheet cs'')" and
    d: "\<And>r c. cell_at cs'' r c =
          (if max_row [((1, 1), JStr (py ''CNPJ'')), ((2, 1), JStr (py ''11.222.333/0001-81''))] < r
           then table_at (map (map snd) [acme_row])
                  (r - max_row [((1, 1), JStr (py ''CNPJ'')), ((2, 1), JStr (py ''11.222.333/0001-81''))]) c
           else cell_at [((1, 1), JStr (py ''CNPJ'')), ((2, 1), JStr (py ''11.222.333/0001-81''))] r c)"
    by auto
  have c2: "cell_at cs'' 2 1 = Some (JStr (py ''11.222.333/0001-81''))"
    "cell_at cs'' 3 2 = Some (JStr (py ''ACME''))"
    by (simp_all add: d [unfolded mr] table_at_def grid_at_def acme_row_def cell_at_Cons)
  from ne fm Dados_absent a a2 c c' c2 show ?thesis by blast
qed

text \<open>
  C2. The claim is that on a sheet that exists the rows are written starting immediately
  after the last occupied row. On the book whose sheet \<open>Dados\<close> exists and has no
  cell, no row is occupied, \<open>max_row\<close> is 1, and the one data row is written to row 2,
  without a header: row 1 stays blank.
\<close>

theorem salvar_empty_sheet:
  "salvar_dados_empresa_excel (DataFrame [acme_row]) (Some planilha_aba_vazia) Dados
     = (None, Some (planilha @ [(Dados, Worksheet acme_na_linha_2)]))
   \<and> max_row [] = 1
   \<and> cell_at acme_na_linha_2 1 2 = None
   \<and> cell_at acme_na_linha_2 2 2 = Some (JStr (py ''ACME''))"
proof -
  have "map_of planilha_aba_vazia Dados = Some (Worksheet [])"
    using Dados_absent by (simp add: planilha_aba_vazia_def map_add_def)
  from salvar_worksheet [OF this, of "DataFrame [acme_row]"]
  have "salvar_dados_empresa_excel (DataFrame [acme_row]) (Some planilha_aba_vazia) Dados
     = (None, Some (planilha @ [(Dados, Worksheet
          (write_cells [] (max_row []) (frame_cells (DataFrame [acme_row]) False)))]))"
    using Dados_absent by (simp add: planilha_aba_vazia_def book_setsheet_append)
  moreover have "max_row [] = 1" by (simp add: max_row_def)
  moreover have "write_cells [] 1 (frame_cells \<lparr>columns = campos_interesse, rows = [map snd acme_row]\<rparr> False)
      = acme_na_linha_2"
    by (simp add: write_cells_def frame_cells_def acme_row_def acme_na_linha_2_def)
  moreover have "cell_at acme_na_linha_2 1 2 = None"
    "cell_at acme_na_linha_2 2 2 = Some (JStr (py ''ACME''))"
    by (simp_all add: cell_at_def acme_na_linha_2_def)
  ultimately show ?thesis by (simp add: DataFrame_acme)
qed

text \<open>
  The theorem of the failures at the book of the examples, where the sheet is missing,
  and at a book whose sheet \<open>Dados\<close> is a chart sheet.
\<close>

theorem salvar_failures_witness:
  "map_of planilha Dados = None
   \<and> fst (salvar_dados_empresa_excel (DataFrame [acme_row]) (Some planilha) Dados) = None
   \<and> map_of [(Dados, Chartsheet)] Dados = Some Chartsheet
   \<and> salvar_dados_empresa_excel (DataFrame [acme_row]) (Some [(Dados, Chartsheet)]) Dados
       = (Some AttributeError, Some [(Dados, Chartsheet)])
   \<and> salvar_dados_empresa_excel (DataFrame [acme_row]) None Dados = (Some FileError, None)"
  using salvar_failures [of planilha Dados "DataFrame [acme_row]"]
    salvar_failures [of "[(Dados, Chartsheet)]" Dados "DataFrame [acme_row]"] Dados_absent
  by auto

text \<open>
  The claim says that every failure of the probe is turned into the creation of the
  sheet and none is raised again. When \<open>Dados\<close> is a chart sheet, \<open>book[nome_aba]\<close>
  finds it, \<open>max_row\<close> raises AttributeError, and the exception reaches the caller.
\<close>

theorem salvar_chart_sheet_raises:
  "salvar_dados_empresa_excel (DataFrame [acme_row]) (Some [(Dados, Chartsheet)]) Dados
     = (Some AttributeError, Some [(Dados, Chartsheet)])"
  by (simp add: salvar_dados_empresa_excel_def try_block_def book_getitem_def)

lemma obter_acme:
  "outcome (obter_dados_empresa_por_cnpj one_company n (py ''11.222.333/0001-81'')) = Inr (Some acme)"
  by (simp add: obter_dados_empresa_por_cnpj_def request_def one_company_def acme_def digit_defs)

lemma obter_unknown:
  "outcome (obter_dados_empresa_por_cnpj one_company n (py ''99999999999'')) = Inr None"
  by (simp add: obter_dados_empresa_por_cnpj_def request_def one_company_def not_found_def digit_defs)

lemma formatar_acme: "formatar_dados acme = Inr acme_row"
  by (simp add: formatar_dados_def acme_def acme_row_def campos_interesse_def dict_get_def py_def)

lemma truthy_acme: "truthy acme"
  by (simp add: acme_def)

lemma consultar_one_company:
  "consultar one_company 0 [py ''11.222.333/0001-81'', py ''99999999999''] [] = Inr [acme_row]"
  by (simp add: obter_acme obter_unknown formatar_acme truthy_acme)

text \<open>
  The batch at the registry that knows one company, for a known identifier followed by
  an unknown one: the one formatted row.
\<close>

lemma consultar_batch_example:
  "consultar one_company 0 [py ''11.222.333/0001-81'', py ''99999999999''] [] = Inr [acme_row]
   \<and> batch_of one_company 0 [py ''11.222.333/0001-81'', py ''99999999999''] = [acme_row]
   \<and> length [acme_row] \<le> length [py ''11.222.333/0001-81'', py ''99999999999'']"
proof -
  from consultar_batch [OF consultar_one_company]
  have b: "batch_of one_company 0 [py ''11.222.333/0001-81'', py ''99999999999''] = [acme_row]"
    by simp
  show ?thesis
    by (intro conjI) (rule consultar_one_company, rule b, simp)
qed

text \<open>
  The scenario of the specification: the column holds a known identifier, a blank cell
  and an unknown identifier; the run ends without an exception after one invocation of
  the appender, and the sheet \<open>Dados\<close> holds the header row and the one data row.
\<close>

lemma main_scenario:
  "\<exists>cs. main one_company [Some (py ''11.222.333/0001-81''), None, Some (py ''99999999999'')]
           (Some planilha)
         = \<lparr>raised = None, arquivo = Some (planilha @ [(Dados, Worksheet cs)]), appends = 1\<rparr>
       \<and> cell_at cs 1 2 = Some (JStr (py ''nome''))
       \<and> cell_at cs 2 2 = Some (JStr (py ''ACME''))
       \<and> max_row cs = 2"
proof -
  define cs where "cs = write_cells [] 0 (frame_cells (DataFrame [acme_row]) True)"
  have c: "cell_at cs r c = table_at (map JStr campos_interesse # [map snd acme_row]) r c" for r c
    by (simp add: cs_def created_cells DataFrame_acme)
  have "max_row cs = length (map JStr campos_interesse # [map snd acme_row])"
    by (rule max_row_table) (simp_all add: c acme_row_def)
  then have m: "max_row cs = 2" by simp
  have "consultar one_company 0
          (dropna [Some (py ''11.222.333/0001-81''), None, Some (py ''99999999999'')]) []
        = Inr [acme_row]"
    using consultar_one_company by (simp add: dropna_def)
  then have "main one_company [Some (py ''11.222.333/0001-81''), None, Some (py ''99999999999'')]
           (Some planilha)
         = \<lparr>raised = None, arquivo = Some (planilha @ [(Dados, Worksheet cs)]), appends = 1\<rparr>"
    by (simp add: main_def salvar_absent [OF Dados_absent] cs_def)
  moreover have "cell_at cs 1 2 = Some (JStr (py ''nome''))" "cell_at cs 2 2 = Some (JStr (py ''ACME''))"
    by (simp_all add: c table_at_def grid_at_def campos_interesse_def acme_row_def)
  ultimately show ?thesis using m by blast
qed

end
